theory Spec2Isabelle
  imports Main "HOL-Library.Sublist"
begin

section \<open>Errors and strings\<close>

text \<open>
  A Go \<open>error\<close> of this program is only ever a message: the code builds errors with
  \<open>errors.New\<close> and \<open>fmt.Errorf\<close> and tells them apart by their text
  (\<open>strings.Contains(err.Error(), "not exist")\<close>). An error is therefore modelled
  as its message, and a Go \<open>err error\<close> result as \<open>error option\<close>
  (\<open>None\<close> is \<open>nil\<close>).
\<close>

type_synonym error = string

text \<open>\<open>strings.Contains(s, substr)\<close>: \<open>substr\<close> occurs in \<open>s\<close> as a contiguous run.\<close>

definition strings_Contains :: "string \<Rightarrow> string \<Rightarrow> bool" where
  "strings_Contains s substr = sublist substr s"

section \<open>Resource manager (package resourcemanager)\<close>

subsection \<open>Types\<close>

record DeviceResource =
  Name :: string
  SharedCount :: int
  Groups :: "string list"
  HostDevices :: "string list"

record AvailableResources =
  Devices :: "DeviceResource list"

text \<open>
  \<open>deviceWithServices\<close> is a Go \<open>map[string][]string\<close>; reading a key that is not
  in the map gives the nil slice, which \<open>mapIndex\<close> renders as the empty list.
  \<open>areResourcesValid\<close> is the error cached by \<open>New\<close>.
\<close>

record ResourceManager =
  deviceWithServices :: "string \<rightharpoonup> string list"
  hostDevices :: "string list"
  hostGroups :: "string list"
  resourceConfigFile :: string
  availableResources :: AvailableResources
  areResourcesValid :: "error option"

definition mapIndex :: "(string \<rightharpoonup> string list) \<Rightarrow> string \<Rightarrow> string list" where
  "mapIndex m k = (case m k of None \<Rightarrow> [] | Some l \<Rightarrow> l)"

subsection \<open>Error messages\<close>

definition errNotProvided :: error where
  "errNotProvided = ''resource configuration is not provided''"

definition errNotPresented :: error where
  "errNotPresented = ''device is not presented at available resources''"

definition errUnavailable :: "string \<Rightarrow> error" where
  "errUnavailable device = ''device: '' @ device @ '' is unavailable''"

definition errNotGranted :: "string \<Rightarrow> string \<Rightarrow> error" where
  "errNotGranted device serviceID =
     ''device: '' @ device @ '' was not provided for '' @ serviceID @ '' service''"

definition errNotValid :: error where
  "errNotValid = ''device resources are not valid''"

subsection \<open>Private helpers\<close>

fun contains :: "string list \<Rightarrow> string \<Rightarrow> bool" where
  "contains [] str = False"
| "contains (a # arr) str = (if strings_Contains a str then True else contains arr str)"

text \<open>
  \<open>removeFromSlice\<close> deletes the first element equal to \<open>str\<close> and stops
  (\<open>break\<close>); without such an element the slice is returned as it is.
\<close>

fun removeFromSlice :: "string list \<Rightarrow> string \<Rightarrow> string list" where
  "removeFromSlice [] str = []"
| "removeFromSlice (a # arr) str = (if a = str then arr else a # removeFromSlice arr str)"

definition isAvailableResourcesChecked :: "ResourceManager \<Rightarrow> bool" where
  "isAvailableResourcesChecked rm = (length (Devices (availableResources rm)) \<noteq> 0)"

text \<open>
  The loop of \<open>getAvailableDeviceByName\<close>: the first declared device whose \<open>Name\<close>
  occurs inside the requested name.
\<close>

fun firstDeviceByName :: "DeviceResource list \<Rightarrow> string \<Rightarrow> error + DeviceResource" where
  "firstDeviceByName [] name = Inl errNotPresented"
| "firstDeviceByName (deviceResource # rest) name =
     (if strings_Contains name (Name deviceResource) then Inr deviceResource
      else firstDeviceByName rest name)"

definition getAvailableDeviceByName :: "ResourceManager \<Rightarrow> string \<Rightarrow> error + DeviceResource" where
  "getAvailableDeviceByName rm name = firstDeviceByName (Devices (availableResources rm)) name"

text \<open>
  \<open>validateDeviceResources\<close> collects, per declared device, one reason for every host
  device and every group that the host does not have; \<open>deviceErrors\<close> is that
  collection as (device name, reason) pairs, and the Go map built from it is non-empty
  exactly when the list is. The alert sender is nil when \<open>New\<close> runs the validation,
  so no alert is sent there.
\<close>

datatype reason = DeviceNotOnSystem string | GroupNotOnSystem string

definition deviceReasons :: "ResourceManager \<Rightarrow> DeviceResource \<Rightarrow> (string \<times> reason) list" where
  "deviceReasons rm avaliableDevice =
     map (\<lambda>h. (Name avaliableDevice, DeviceNotOnSystem h))
         (filter (\<lambda>h. \<not> contains (hostDevices rm) h) (HostDevices avaliableDevice))
     @ map (\<lambda>g. (Name avaliableDevice, GroupNotOnSystem g))
         (filter (\<lambda>g. \<not> contains (hostGroups rm) g) (Groups avaliableDevice))"

definition deviceErrors :: "ResourceManager \<Rightarrow> (string \<times> reason) list" where
  "deviceErrors rm = concat (map (deviceReasons rm) (Devices (availableResources rm)))"

definition validateDeviceResources :: "ResourceManager \<Rightarrow> error option" where
  "validateDeviceResources rm =
     (if \<not> isAvailableResourcesChecked rm then Some errNotProvided
      else if length (deviceErrors rm) \<noteq> 0 then Some errNotValid
      else None)"

subsection \<open>Public operations\<close>

definition AreResourcesValid :: "ResourceManager \<Rightarrow> error option" where
  "AreResourcesValid rm = areResourcesValid rm"

definition RequestDevice ::
  "ResourceManager \<Rightarrow> string \<Rightarrow> string \<Rightarrow> error option \<times> ResourceManager" where
  "RequestDevice rm device serviceID =
     (if \<not> isAvailableResourcesChecked rm then (Some errNotProvided, rm)
      else case getAvailableDeviceByName rm device of
        Inl err \<Rightarrow> (Some err, rm)
      | Inr deviceResource \<Rightarrow>
          (let listOfServices = mapIndex (deviceWithServices rm) device in
           if SharedCount deviceResource = 0
              \<or> SharedCount deviceResource > int (length listOfServices)
           then (if contains listOfServices serviceID then (None, rm)
                 else (None, rm\<lparr>deviceWithServices :=
                               (deviceWithServices rm)(device \<mapsto> listOfServices @ [serviceID])\<rparr>))
           else (Some (errUnavailable device), rm)))"

definition ReleaseDevice ::
  "ResourceManager \<Rightarrow> string \<Rightarrow> string \<Rightarrow> error option \<times> ResourceManager" where
  "ReleaseDevice rm device serviceID =
     (if \<not> isAvailableResourcesChecked rm then (Some errNotProvided, rm)
      else case getAvailableDeviceByName rm device of
        Inl err \<Rightarrow> (Some err, rm)
      | Inr deviceResource \<Rightarrow>
          (let listOfServices = mapIndex (deviceWithServices rm) device in
           if contains listOfServices serviceID
           then (None, rm\<lparr>deviceWithServices :=
                         (deviceWithServices rm)(device \<mapsto> removeFromSlice listOfServices serviceID)\<rparr>)
           else (Some (errNotGranted device serviceID), rm)))"

subsection \<open>Construction\<close>

text \<open>
  What \<open>New\<close> reads from the host: the walk of \<open>/dev/\<close>, the file \<open>/etc/group\<close>
  (its text and the error, if any, that ended the reading before the end of the file),
  the bytes of the resource declaration file, and the JSON decoder. \<open>jsonUnmarshal\<close> is
  \<open>json.Unmarshal(byteValue, &resources)\<close> on a zero \<open>AvailableResources\<close>: it gives
  the value left in \<open>resources\<close> together with the error.
\<close>

record host =
  walkDev :: "error + string list"
  etcGroup :: "error + (string \<times> error option)"
  readFile :: "string \<Rightarrow> error + string"
  jsonUnmarshal :: "string \<Rightarrow> AvailableResources \<times> error option"

definition discoverHostDevices :: "host \<Rightarrow> error + string list" where
  "discoverHostDevices h = (case walkDev h of Inl err \<Rightarrow> Inl err | Inr paths \<Rightarrow> Inr paths)"

text \<open>
  \<open>reader.ReadString('\n')\<close> gives each line with its newline, and at the end of the
  file the rest of the text (possibly empty) with \<open>io.EOF\<close>.
\<close>

fun readLines :: "string \<Rightarrow> string \<Rightarrow> string list" where
  "readLines cur [] = [cur]"
| "readLines cur (c # cs) =
     (if c = CHR 0x0A then (cur @ [c]) # readLines [] cs else readLines (cur @ [c]) cs)"

definition groupOfLine :: "string \<Rightarrow> string list" where
  "groupOfLine line =
     (if prefix ''#'' line then [] else [takeWhile (\<lambda>c. c \<noteq> CHR '':'') line])"

definition discoverHostGroups :: "host \<Rightarrow> error + string list" where
  "discoverHostGroups h =
     (case etcGroup h of
        Inl err \<Rightarrow> Inl err
      | Inr (content, Some err) \<Rightarrow> Inl err
      | Inr (content, None) \<Rightarrow> Inr (concat (map groupOfLine (readLines [] content))))"

definition parseResourceConfiguration :: "host \<Rightarrow> string \<Rightarrow> AvailableResources \<times> error option" where
  "parseResourceConfiguration h file =
     (let resources = \<lparr>Devices = []\<rparr> in
      case readFile h file of
        Inl err \<Rightarrow> (resources, Some err)
      | Inr byteValue \<Rightarrow> jsonUnmarshal h byteValue)"

definition New :: "host \<Rightarrow> string \<Rightarrow> error + ResourceManager" where
  "New h file =
     (case discoverHostDevices h of
        Inl err \<Rightarrow> Inl err
      | Inr devs \<Rightarrow>
          (case discoverHostGroups h of
             Inl err \<Rightarrow> Inl err
           | Inr groups \<Rightarrow>
               (let rm = \<lparr>deviceWithServices = Map.empty, hostDevices = devs,
                          hostGroups = groups, resourceConfigFile = file,
                          availableResources = fst (parseResourceConfiguration h file),
                          areResourcesValid = None\<rparr>;
                    rm = rm\<lparr>areResourcesValid := validateDeviceResources rm\<rparr>
                in Inr (rm\<lparr>deviceWithServices := Map.empty\<rparr>))))"

subsection \<open>Sequences of requests and releases\<close>

datatype device_op = Request string string | Release string string

fun applyOp :: "ResourceManager \<Rightarrow> device_op \<Rightarrow> ResourceManager" where
  "applyOp rm (Request device serviceID) = snd (RequestDevice rm device serviceID)"
| "applyOp rm (Release device serviceID) = snd (ReleaseDevice rm device serviceID)"

definition runOps :: "ResourceManager \<Rightarrow> device_op list \<Rightarrow> ResourceManager" where
  "runOps rm ops = foldl applyOp rm ops"

definition holders :: "ResourceManager \<Rightarrow> string \<Rightarrow> string list" where
  "holders rm device = mapIndex (deviceWithServices rm) device"

text \<open>
  The capacity invariant of the grant table: a name that resolves to a declared device
  with a positive \<open>SharedCount\<close> has at most that many holders.
\<close>

definition withinCapacity :: "ResourceManager \<Rightarrow> bool" where
  "withinCapacity rm =
     (\<forall>d r. find (\<lambda>r. sublist (Name r) d) (Devices (availableResources rm)) = Some r
            \<and> 0 < SharedCount r
        \<longrightarrow> int (length (holders rm d)) \<le> SharedCount r)"

subsection \<open>Example managers and hosts\<close>

definition exampleManager :: "DeviceResource list \<Rightarrow> ResourceManager" where
  "exampleManager devs =
     \<lparr>deviceWithServices = Map.empty, hostDevices = [], hostGroups = [],
      resourceConfigFile = ''resources.cfg'', availableResources = \<lparr>Devices = devs\<rparr>,
      areResourcesValid = None\<rparr>"

definition camera :: "int \<Rightarrow> DeviceResource" where
  "camera n = \<lparr>Name = ''camera'', SharedCount = n, Groups = [], HostDevices = []\<rparr>"

definition cam :: "int \<Rightarrow> DeviceResource" where
  "cam n = \<lparr>Name = ''cam'', SharedCount = n, Groups = [], HostDevices = []\<rparr>"

text \<open>A host whose declaration file does not exist.\<close>

definition hostNoFile :: host where
  "hostNoFile =
     \<lparr>walkDev = Inr [''/dev/'', ''/dev/null''],
      etcGroup = Inr (''root:x:0:'' @ [CHR 0x0A] @ ''video:x:44:'' @ [CHR 0x0A], None),
      readFile = (\<lambda>file. Inl (''open '' @ file @ '': no such file or directory'')),
      jsonUnmarshal = (\<lambda>byteValue. (\<lparr>Devices = []\<rparr>, None))\<rparr>"

text \<open>
  A host whose declaration file is read but has a string where \<open>sharedCount\<close> wants a
  number: \<open>{"devices":[{"name":"camera","sharedCount":"1","hostDevices":[]}]}\<close>.
  \<open>json.Unmarshal\<close> skips a value that does not fit its field, finishes the decoding
  and returns the type error, so \<open>resources\<close> holds the device with \<open>SharedCount\<close>
  0 when \<open>parseResourceConfiguration\<close> returns it with the error.
\<close>

definition hostTypeError :: host where
  "hostTypeError =
     \<lparr>walkDev = Inr [''/dev/'', ''/dev/null''],
      etcGroup = Inr (''root:x:0:'' @ [CHR 0x0A], None),
      readFile = (\<lambda>file. Inr ''devices: camera, sharedCount as a string''),
      jsonUnmarshal = (\<lambda>byteValue. (\<lparr>Devices = [camera 0]\<rparr>,
         Some ''json: cannot unmarshal string into Go struct field DeviceResource.devices.sharedCount of type int''))\<rparr>"

definition managerTypeError :: ResourceManager where
  "managerTypeError =
     \<lparr>deviceWithServices = Map.empty, hostDevices = [''/dev/'', ''/dev/null''],
      hostGroups = [''root'', []], resourceConfigFile = ''resources.cfg'',
      availableResources = \<lparr>Devices = [camera 0]\<rparr>, areResourcesValid = None\<rparr>"

section \<open>Database (package database)\<close>

text \<open>
  A row of the \<open>services\<close> table, \<open>servicemanager.ServiceInfo\<close>. \<open>aosVersion\<close> is a
  \<open>uint64\<close> stored as an SQLite integer; only its order matters here.
\<close>

record ServiceInfo =
  ServiceID :: string
  AosVersion :: nat
  ServiceProvider :: string
  Description :: string
  ImagePath :: string
  GID :: nat
  ManifestDigest :: "nat list"
  IsActive :: bool

text \<open>
  The database handle: the rows of \<open>services\<close> in the order in which a scan of the
  table yields them, and the failures the driver may report when the statement is
  prepared or the row is scanned.
\<close>

record Database =
  services :: "ServiceInfo list"
  prepareError :: "error option"
  scanError :: "error option"

text \<open>
  \<open>servicemanager.ErrNotExist\<close> is a sentinel value, recognised with \<open>errors.Is\<close>; every
  other error is a wrapped driver error.
\<close>

datatype db_error = ErrNotExist | Wrapped error

text \<open>\<open>SELECT MAX(aosVersion) FROM services WHERE id = ?\<close>: NULL on no row.\<close>

definition maxAosVersion :: "ServiceInfo list \<Rightarrow> string \<Rightarrow> nat option" where
  "maxAosVersion rows serviceID =
     (case map AosVersion (filter (\<lambda>row. ServiceID row = serviceID) rows) of
        [] \<Rightarrow> None
      | v # vs \<Rightarrow> Some (fold max vs v))"

text \<open>
  \<open>SELECT * FROM services WHERE aosVersion = (SELECT MAX(aosVersion) FROM services WHERE id = ?)\<close>.
  The comparison with NULL selects no row; \<open>QueryRow\<close> keeps the first selected row and
  reports \<open>sql.ErrNoRows\<close> when there is none.
\<close>

definition selectServices :: "ServiceInfo list \<Rightarrow> string \<Rightarrow> ServiceInfo list" where
  "selectServices rows serviceID =
     (case maxAosVersion rows serviceID of
        None \<Rightarrow> []
      | Some v \<Rightarrow> filter (\<lambda>row. AosVersion row = v) rows)"

definition GetService :: "Database \<Rightarrow> string \<Rightarrow> db_error + ServiceInfo" where
  "GetService db serviceID =
     (case prepareError db of
        Some err \<Rightarrow> Inl (Wrapped err)
      | None \<Rightarrow>
          (case selectServices (services db) serviceID of
             [] \<Rightarrow> Inl ErrNotExist
           | row # rest \<Rightarrow>
               (case scanError db of Some err \<Rightarrow> Inl (Wrapped err) | None \<Rightarrow> Inr row)))"

definition serviceRow :: "string \<Rightarrow> nat \<Rightarrow> string \<Rightarrow> ServiceInfo" where
  "serviceRow serviceID version imagePath =
     \<lparr>ServiceID = serviceID, AosVersion = version, ServiceProvider = ''sp1'',
      Description = [], ImagePath = imagePath, GID = 5001, ManifestDigest = [],
      IsActive = False\<rparr>"

definition exampleDatabase :: "ServiceInfo list \<Rightarrow> Database" where
  "exampleDatabase rows = \<lparr>services = rows, prepareError = None, scanError = None\<rparr>"

section \<open>Cloud messages (package amqphandler)\<close>

text \<open>
  \<open>amqp.ServiceInfo\<close>, the status of a service as it is sent to the cloud, and
  \<open>amqp.ServiceInfoFromCloud\<close>, a desired service; versions are \<open>uint64\<close> values
  that the code only compares.
\<close>

record amqp_ServiceInfo =
  info_ID :: string
  info_Version :: nat
  info_Status :: string
  info_Error :: string
  info_StateChecksum :: string

record ServiceInfoFromCloud =
  cloud_ID :: string
  cloud_Version :: nat

section \<open>Main loop (servicemanager.go)\<close>

text \<open>
  \<open>processAmqpMessage\<close> stores in each \<open>serviceDesc\<close> the addresses
  \<open>&serviceInfo\<close> and \<open>&serviceInfoFromCloud\<close> of the variables of its two
  \<open>range\<close> loops. The repository is built in GOPATH mode, without a \<open>go.mod\<close>,
  so the language is Go before 1.22: a \<open>range\<close> variable is one variable for the
  whole loop, assigned anew in every iteration. A pointer field is therefore either nil
  or the address of the loop's variable, and what it points to is read when the third
  loop dereferences it.
\<close>

datatype pointer = nil | rangeVar

record serviceDesc =
  desc_serviceInfo :: pointer
  desc_serviceInfoFromCloud :: pointer

record rangeVars =
  var_serviceInfo :: "amqp_ServiceInfo option"
  var_serviceInfoFromCloud :: "ServiceInfoFromCloud option"

datatype amqp_data = ServicesFromCloud "ServiceInfoFromCloud list" | OtherMessage

datatype launcher_call = CallInstallService ServiceInfoFromCloud | CallRemoveService string

text \<open>
  \<open>servicesMap\<close> is a Go map; it is kept as an association list in the order in which
  the keys were first stored. The third loop visits the keys in an order that Go leaves
  open, here the order of the list.
\<close>

type_synonym servicesMap = "(string \<times> serviceDesc) list"

definition mapAssign :: "servicesMap \<Rightarrow> string \<Rightarrow> serviceDesc \<Rightarrow> servicesMap" where
  "mapAssign m k v =
     (if k \<in> set (map fst m) then map (\<lambda>(k', v'). if k' = k then (k', v) else (k', v')) m
      else m @ [(k, v)])"

definition currentStep ::
  "rangeVars \<times> servicesMap \<Rightarrow> amqp_ServiceInfo \<Rightarrow> rangeVars \<times> servicesMap" where
  "currentStep s element =
     (case s of (vars, m) \<Rightarrow>
        (vars\<lparr>var_serviceInfo := Some element\<rparr>,
         mapAssign m (info_ID element) \<lparr>desc_serviceInfo = rangeVar, desc_serviceInfoFromCloud = nil\<rparr>))"

definition cloudStep ::
  "rangeVars \<times> servicesMap \<Rightarrow> ServiceInfoFromCloud \<Rightarrow> rangeVars \<times> servicesMap" where
  "cloudStep s element =
     (case s of (vars, m) \<Rightarrow>
        (let m1 = (case map_of m (cloud_ID element) of
                     None \<Rightarrow> mapAssign m (cloud_ID element)
                               \<lparr>desc_serviceInfo = nil, desc_serviceInfoFromCloud = nil\<rparr>
                   | Some desc \<Rightarrow> m);
             m2 = (case map_of m1 (cloud_ID element) of
                     None \<Rightarrow> m1
                   | Some desc \<Rightarrow> mapAssign m1 (cloud_ID element)
                                   (desc\<lparr>desc_serviceInfoFromCloud := rangeVar\<rparr>))
         in (vars\<lparr>var_serviceInfoFromCloud := Some element\<rparr>, m2)))"

definition decide :: "rangeVars \<Rightarrow> serviceDesc \<Rightarrow> launcher_call list" where
  "decide vars service =
     (if desc_serviceInfoFromCloud service \<noteq> nil \<and> desc_serviceInfo service \<noteq> nil then
        (case (var_serviceInfoFromCloud vars, var_serviceInfo vars) of
           (Some fromCloud, Some info) \<Rightarrow>
             if cloud_Version fromCloud > info_Version info
             then [CallInstallService fromCloud] else []
         | _ \<Rightarrow> [])
      else if desc_serviceInfoFromCloud service \<noteq> nil then
        (case var_serviceInfoFromCloud vars of
           Some fromCloud \<Rightarrow> [CallInstallService fromCloud] | None \<Rightarrow> [])
      else if desc_serviceInfo service \<noteq> nil then
        (case var_serviceInfo vars of
           Some info \<Rightarrow> [CallRemoveService (info_ID info)] | None \<Rightarrow> [])
      else [])"

text \<open>
  The result is the returned error and the calls made on the launcher.
  \<open>getServicesInfo\<close> is what \<open>launcherHandler.GetServicesInfo()\<close> returns.
\<close>

definition processAmqpMessage ::
  "amqp_data \<Rightarrow> amqp_ServiceInfo list \<times> error option \<Rightarrow> error option \<times> launcher_call list" where
  "processAmqpMessage data getServicesInfo =
     (case data of
        OtherMessage \<Rightarrow> (None, [])
      | ServicesFromCloud desired \<Rightarrow>
          (case getServicesInfo of
             (currentList, Some err) \<Rightarrow> (Some err, [])
           | (currentList, None) \<Rightarrow>
               (let s0 = (\<lparr>var_serviceInfo = None, var_serviceInfoFromCloud = None\<rparr>, []);
                    s1 = foldl currentStep s0 currentList;
                    s2 = foldl cloudStep s1 desired
                in (None, concat (map (\<lambda>(key, service). decide (fst s2) service) (snd s2))))))"

definition installedInfo :: "string \<Rightarrow> nat \<Rightarrow> amqp_ServiceInfo" where
  "installedInfo serviceID version =
     \<lparr>info_ID = serviceID, info_Version = version, info_Status = ''installed'',
      info_Error = [], info_StateChecksum = []\<rparr>"

definition desiredInfo :: "string \<Rightarrow> nat \<Rightarrow> ServiceInfoFromCloud" where
  "desiredInfo serviceID version = \<lparr>cloud_ID = serviceID, cloud_Version = version\<rparr>"

section \<open>Launcher (package launcher)\<close>

subsection \<open>Types\<close>

text \<open>
  \<open>Service\<close> with the fields that the functions below read; the other fields of the
  struct are only handed on to helpers. \<open>UsersService\<close> carries the state checksum as
  bytes.
\<close>

record Service =
  svc_ID :: string
  svc_Version :: nat
  svc_ServiceProvider :: string
  svc_Path :: string
  svc_UnitName :: string
  svc_UserName :: string
  svc_StorageLimit :: nat
  svc_StateLimit :: nat

record UsersService =
  us_Users :: "string list"
  us_ServiceID :: string
  us_StorageFolder :: string
  us_StateChecksum :: "nat list"

datatype ServiceState = stateInit | stateRunning | stateStopped

datatype ServiceStatus = statusOk | statusError

record serviceInfoToInstall =
  serviceDetails :: ServiceInfoFromCloud

text \<open>
  The \<open>data interface{}\<close> of an action, and the function an action runs. The two
  anonymous functions of \<open>startServices\<close> and \<open>stopServices\<close> are \<open>startAction\<close>
  and \<open>stopAction\<close>.
\<close>

datatype action_data =
    DataNil
  | DataInstall serviceInfoToInstall
  | DataService Service

datatype action_func = doInstall | doUninstall | startAction | stopAction

record serviceAction =
  action_id :: string
  action_data :: action_data
  action_do :: action_func

text \<open>
  The fields of \<open>Launcher\<close> that the functions below consult: \<open>users\<close> is \<open>None\<close>
  for the nil slice, \<open>hasSender\<close> and \<open>hasNetwork\<close> say whether \<open>sender\<close> and
  \<open>network\<close> are non-nil.
\<close>

record Launcher =
  users :: "string list option"
  hasSender :: bool
  hasNetwork :: bool
  workingDir :: string
  storageDir :: string

text \<open>
  Everything outside the launcher (service provider, device manager, systemd, network,
  file system, users of the platform) is a state of type \<open>'w\<close>. \<open>ops\<close> gives the
  operations on it that the functions below call: the methods of the collaborator
  interfaces, the library calls, and the launcher's own helpers that only act on that
  state. None of the helpers sends a service status: \<open>SendServiceStatus\<close> is called in
  \<open>doActionInstall\<close>, \<open>doActionUninstall\<close> and \<open>updateService\<close> only. An operation
  that reads returns its results; one that writes returns the new state as well.
\<close>

record 'w ops =
  dm_AreResourcesValid :: "'w \<Rightarrow> error option"
  sp_GetService :: "'w \<Rightarrow> string \<Rightarrow> Service \<times> error option"
  sp_GetServices :: "'w \<Rightarrow> Service list \<times> error option"
  sp_GetUsersServices :: "'w \<Rightarrow> string list option \<Rightarrow> Service list \<times> error option"
  sp_GetUsersService :: "'w \<Rightarrow> string list option \<Rightarrow> string \<Rightarrow> UsersService \<times> error option"
  sp_AddService :: "'w \<Rightarrow> Service \<Rightarrow> error option \<times> 'w"
  sp_UpdateService :: "'w \<Rightarrow> Service \<Rightarrow> error option \<times> 'w"
  sp_AddServiceToUsers :: "'w \<Rightarrow> string list option \<Rightarrow> string \<Rightarrow> error option \<times> 'w"
  sp_RemoveServiceFromUsers :: "'w \<Rightarrow> string list option \<Rightarrow> string \<Rightarrow> error option \<times> 'w"
  net_NetworkExists :: "'w \<Rightarrow> string \<Rightarrow> error option"
  net_CreateNetwork :: "'w \<Rightarrow> string \<Rightarrow> error option \<times> 'w"
  platform_SetUserFSQuota :: "'w \<Rightarrow> string \<Rightarrow> nat \<Rightarrow> string \<Rightarrow> error option \<times> 'w"
  platform_IsUserExist :: "'w \<Rightarrow> string \<Rightarrow> bool"
  platform_DeleteUser :: "'w \<Rightarrow> string \<Rightarrow> error option \<times> 'w"
  ioutil_TempDir :: "'w \<Rightarrow> string \<Rightarrow> string \<Rightarrow> (string \<times> error option) \<times> 'w"
  os_Stat :: "'w \<Rightarrow> string \<Rightarrow> error option"
  os_RemoveAll :: "'w \<Rightarrow> string \<Rightarrow> error option \<times> 'w"
  services_Delete :: "'w \<Rightarrow> string \<Rightarrow> 'w"
  downloadAndUnpackImage :: "'w \<Rightarrow> serviceInfoToInstall \<Rightarrow> string \<Rightarrow> error option \<times> 'w"
  validateUnpackedImage :: "'w \<Rightarrow> string \<Rightarrow> error option"
  prepareService :: "'w \<Rightarrow> string \<Rightarrow> string \<Rightarrow> ServiceInfoFromCloud \<Rightarrow> (Service \<times> error option) \<times> 'w"
  addServiceToSystemd :: "'w \<Rightarrow> Service \<Rightarrow> error option \<times> 'w"
  startService :: "'w \<Rightarrow> Service \<Rightarrow> error option \<times> 'w"
  stopService :: "'w \<Rightarrow> Service \<Rightarrow> error option \<times> 'w"
  restoreService :: "'w \<Rightarrow> Service \<Rightarrow> error option \<times> 'w"
  removeService :: "'w \<Rightarrow> Service \<Rightarrow> error option \<times> 'w"
  updateServiceState :: "'w \<Rightarrow> string \<Rightarrow> ServiceState \<Rightarrow> ServiceStatus \<Rightarrow> error option \<times> 'w"

text \<open>
  The state an action runs in: the outside world and the statuses handed to
  \<open>sender.SendServiceStatus\<close> so far, oldest first.
\<close>

record 'w state =
  world :: 'w
  sent :: "amqp_ServiceInfo list"

subsection \<open>Helpers of the model\<close>

text \<open>\<open>if launcher.sender != nil { launcher.sender.SendServiceStatus(status) }\<close>\<close>

definition sendStatus :: "Launcher \<Rightarrow> 'w state \<Rightarrow> amqp_ServiceInfo \<Rightarrow> 'w state" where
  "sendStatus l st status = (if hasSender l then st\<lparr>sent := sent st @ [status]\<rparr> else st)"

definition onWorld :: "('w \<Rightarrow> 'a \<times> 'w) \<Rightarrow> 'w state \<Rightarrow> 'a \<times> 'w state" where
  "onWorld f st = (case f (world st) of (r, w) \<Rightarrow> (r, st\<lparr>world := w\<rparr>))"

text \<open>
  A run of statements \<open>if err = f(); err != nil { return err }\<close>, ending with
  \<open>return nil\<close>.
\<close>

fun runSteps :: "('s \<Rightarrow> error option \<times> 's) list \<Rightarrow> 's \<Rightarrow> error option \<times> 's" where
  "runSteps [] s = (None, s)"
| "runSteps (f # fs) s =
     (case f s of (Some err, s') \<Rightarrow> (Some err, s') | (None, s') \<Rightarrow> runSteps fs s')"

text \<open>\<open>path.Join\<close> of two clean, non-empty elements.\<close>

definition path_Join :: "string \<Rightarrow> string \<Rightarrow> string" where
  "path_Join a b = a @ ''/'' @ b"

text \<open>\<open>hex.EncodeToString\<close>\<close>

definition hexDigit :: "nat \<Rightarrow> char" where
  "hexDigit n = ''0123456789abcdef'' ! (n mod 16)"

definition hex_EncodeToString :: "nat list \<Rightarrow> string" where
  "hex_EncodeToString bytes = concat (map (\<lambda>b. [hexDigit (b div 16), hexDigit b]) bytes)"

definition errUsersNotSet :: error where
  "errUsersNotSet = ''users are not set''"

definition errVersionMismatch :: error where
  "errVersionMismatch = ''version mistmatch''"

definition errWrongDataType :: error where
  "errWrongDataType = ''wrong data type''"

subsection \<open>Private functions\<close>

definition addServiceToCurrentUsers ::
  "'w ops \<Rightarrow> Launcher \<Rightarrow> string \<Rightarrow> 'w \<Rightarrow> error option \<times> 'w" where
  "addServiceToCurrentUsers ops l serviceID w =
     (case snd (sp_GetUsersService ops w (users l) serviceID) of
        None \<Rightarrow> (None, w)
      | Some err \<Rightarrow>
          if \<not> strings_Contains err ''not exist'' then (Some err, w)
          else sp_AddServiceToUsers ops w (users l) serviceID)"

text \<open>
  \<open>addService\<close>: once the service is in the provider, an error makes the deferred
  function call \<open>removeService\<close>. The two limits are \<open>uint64\<close> values, and their
  sum wraps.
\<close>

definition addService :: "'w ops \<Rightarrow> Launcher \<Rightarrow> Service \<Rightarrow> 'w \<Rightarrow> error option \<times> 'w" where
  "addService ops l service w =
     (case runSteps
        [\<lambda>w. platform_SetUserFSQuota ops w (storageDir l)
                ((svc_StorageLimit service + svc_StateLimit service) mod 2 ^ 64)
                (svc_UserName service),
         \<lambda>w. sp_AddService ops w service] w of
        (Some err, w1) \<Rightarrow> (Some err, w1)
      | (None, w1) \<Rightarrow>
          (case runSteps
             [\<lambda>w. if hasNetwork l
                   then (case net_NetworkExists ops w (svc_ServiceProvider service) of
                           None \<Rightarrow> (None, w)
                         | Some err \<Rightarrow> net_CreateNetwork ops w (svc_ServiceProvider service))
                   else (None, w),
              addServiceToCurrentUsers ops l (svc_ID service),
              \<lambda>w. addServiceToSystemd ops w service,
              \<lambda>w. startService ops w service] w1 of
             (Some err, w2) \<Rightarrow> (Some err, snd (removeService ops w2 service))
           | (None, w2) \<Rightarrow> (None, w2)))"

text \<open>
  \<open>updateService\<close>. The deferred function runs when the body returns an error. It
  assigns the results of \<open>stopService\<close> and of \<open>os.RemoveAll\<close> to the named result
  \<open>err\<close>, so the function returns what \<open>os.RemoveAll(newService.Path)\<close> returned.
\<close>

definition removedStatus :: "Service \<Rightarrow> amqp_ServiceInfo" where
  "removedStatus oldService =
     \<lparr>info_ID = svc_ID oldService, info_Version = svc_Version oldService,
      info_Status = ''removed'', info_Error = [], info_StateChecksum = []\<rparr>"

definition updateServiceBody ::
  "'w ops \<Rightarrow> Launcher \<Rightarrow> Service \<Rightarrow> Service \<Rightarrow> 'w state \<Rightarrow> error option \<times> 'w state" where
  "updateServiceBody ops l oldService newService st =
     (case onWorld (runSteps
        [\<lambda>w. (None, services_Delete ops w (svc_UnitName oldService)),
         \<lambda>w. updateServiceState ops w (svc_ID oldService) stateStopped statusOk,
         addServiceToCurrentUsers ops l (svc_ID newService),
         \<lambda>w. platform_SetUserFSQuota ops w (storageDir l)
                (svc_StorageLimit newService) (svc_UserName newService),
         \<lambda>w. stopService ops w oldService,
         \<lambda>w. os_RemoveAll ops w (svc_Path oldService),
         \<lambda>w. addServiceToSystemd ops w newService,
         \<lambda>w. startService ops w newService,
         \<lambda>w. sp_UpdateService ops w newService]) st of
        (Some err, st1) \<Rightarrow> (Some err, st1)
      | (None, st1) \<Rightarrow> (None, sendStatus l st1 (removedStatus oldService)))"

definition updateServiceDeferred ::
  "'w ops \<Rightarrow> Launcher \<Rightarrow> Service \<Rightarrow> Service \<Rightarrow> 'w state \<Rightarrow> error option \<times> 'w state" where
  "updateServiceDeferred ops l oldService newService st =
     (case onWorld (\<lambda>w. stopService ops w newService) st of
        (err1, st1) \<Rightarrow>
          (case onWorld (\<lambda>w. os_RemoveAll ops w (svc_Path newService)) st1 of
             (err2, st2) \<Rightarrow>
               (case onWorld (\<lambda>w. restoreService ops w oldService) st2 of
                  (None, st3) \<Rightarrow> (err2, st3)
                | (Some err3, st3) \<Rightarrow>
                    (err2, sendStatus l (snd (onWorld (\<lambda>w. removeService ops w oldService) st3))
                             (removedStatus oldService)))))"

definition updateService ::
  "'w ops \<Rightarrow> Launcher \<Rightarrow> Service \<Rightarrow> Service \<Rightarrow> 'w state \<Rightarrow> error option \<times> 'w state" where
  "updateService ops l oldService newService st =
     (case updateServiceBody ops l oldService newService st of
        (None, st1) \<Rightarrow> (None, st1)
      | (Some err, st1) \<Rightarrow> updateServiceDeferred ops l oldService newService st1)"

text \<open>
  The part of \<open>installService\<close> that installs or updates: from the first
  \<open>ioutil.TempDir\<close> (whose error the next assignment overwrites) to the end. The
  deferred functions run last: the cleanup of the install directory, registered once that
  directory exists, and the removal of the unpack directory.
\<close>

definition installCleanup ::
  "'w ops \<Rightarrow> serviceInfoToInstall \<Rightarrow> bool \<Rightarrow> string \<Rightarrow> 'w \<Rightarrow> 'w" where
  "installCleanup ops serviceInfo serviceExists installDir w =
     (let w1 = (if \<not> serviceExists
                   \<and> platform_IsUserExist ops w (cloud_ID (serviceDetails serviceInfo))
                then snd (platform_DeleteUser ops w (cloud_ID (serviceDetails serviceInfo)))
                else w)
      in if os_Stat ops w1 installDir = None then snd (os_RemoveAll ops w1 installDir) else w1)"

definition installOrUpdate ::
  "'w ops \<Rightarrow> Launcher \<Rightarrow> serviceInfoToInstall \<Rightarrow> Service \<Rightarrow> bool \<Rightarrow> string \<Rightarrow> 'w state
     \<Rightarrow> error option \<times> 'w state" where
  "installOrUpdate ops l serviceInfo service serviceExists unpackDir st =
     (case onWorld (runSteps
        [\<lambda>w. downloadAndUnpackImage ops w serviceInfo unpackDir,
         \<lambda>w. (validateUnpackedImage ops w unpackDir, w)]) st of
        (Some err, st1) \<Rightarrow> (Some err, st1)
      | (None, st1) \<Rightarrow>
          (case onWorld (\<lambda>w. ioutil_TempDir ops w (path_Join (workingDir l) ''services'') []) st1 of
             ((installDir, Some err), st2) \<Rightarrow> (Some err, st2)
           | ((installDir, None), st2) \<Rightarrow>
               (case
                  (case onWorld (\<lambda>w. prepareService ops w unpackDir installDir
                                       (serviceDetails serviceInfo)) st2 of
                     ((newService, Some err), st3) \<Rightarrow> (Some err, st3)
                   | ((newService, None), st3) \<Rightarrow>
                       if \<not> serviceExists then onWorld (addService ops l newService) st3
                       else updateService ops l service newService st3) of
                  (None, st4) \<Rightarrow> (None, st4)
                | (Some err, st4) \<Rightarrow>
                    (Some err,
                     st4\<lparr>world := installCleanup ops serviceInfo serviceExists installDir
                                     (world st4)\<rparr>))))"

definition installService ::
  "'w ops \<Rightarrow> Launcher \<Rightarrow> serviceInfoToInstall \<Rightarrow> 'w state \<Rightarrow> error option \<times> 'w state" where
  "installService ops l serviceInfo st =
     (if users l = None then (Some errUsersNotSet, st)
      else case dm_AreResourcesValid ops (world st) of
        Some err \<Rightarrow> (Some err, st)
      | None \<Rightarrow>
          (case sp_GetService ops (world st) (cloud_ID (serviceDetails serviceInfo)) of
             (service, getErr) \<Rightarrow>
               if (case getErr of None \<Rightarrow> False
                   | Some err \<Rightarrow> \<not> strings_Contains err ''not exist'')
               then (getErr, st)
               else
                 (let serviceExists = (getErr = None) in
                  if serviceExists
                     \<and> cloud_Version (serviceDetails serviceInfo) < svc_Version service
                  then (Some errVersionMismatch, st)
                  else if serviceExists
                     \<and> cloud_Version (serviceDetails serviceInfo) = svc_Version service
                  then onWorld (runSteps
                         [addServiceToCurrentUsers ops l (cloud_ID (serviceDetails serviceInfo)),
                          \<lambda>w. startService ops w service]) st
                  else
                    (case onWorld (\<lambda>w. ioutil_TempDir ops w [] ''aos_'') st of
                       ((unpackDir, tmpErr), st1) \<Rightarrow>
                         (case installOrUpdate ops l serviceInfo service serviceExists
                                 unpackDir st1 of
                            (err, st2) \<Rightarrow>
                              (err, snd (onWorld (\<lambda>w. os_RemoveAll ops w unpackDir) st2)))))))"

definition uninstallService ::
  "'w ops \<Rightarrow> Launcher \<Rightarrow> string \<Rightarrow> 'w state \<Rightarrow> (nat \<times> error option) \<times> 'w state" where
  "uninstallService ops l serviceID st =
     (case sp_GetService ops (world st) serviceID of
        (service, Some err) \<Rightarrow> ((0, Some err), st)
      | (service, None) \<Rightarrow>
          (let version = svc_Version service in
           if users l = None then ((version, Some errUsersNotSet), st)
           else
             (case onWorld (\<lambda>w. stopService ops w service) st of
                (Some err, st1) \<Rightarrow> ((version, Some err), st1)
              | (None, st1) \<Rightarrow>
                  (case sp_GetUsersService ops (world st1) (users l) (svc_ID service) of
                     (userService, Some err) \<Rightarrow> ((version, Some err), st1)
                   | (userService, None) \<Rightarrow>
                       (case onWorld (runSteps
                          [\<lambda>w. if us_StorageFolder userService \<noteq> []
                                then os_RemoveAll ops w (us_StorageFolder userService)
                                else (None, w),
                           \<lambda>w. sp_RemoveServiceFromUsers ops w (users l) (svc_ID service)]) st1 of
                          (err, st2) \<Rightarrow> ((version, err), st2))))))"

subsection \<open>Actions\<close>

definition errorStatus :: "amqp_ServiceInfo \<Rightarrow> error \<Rightarrow> amqp_ServiceInfo" where
  "errorStatus status err =
     status\<lparr>info_Status := ''error'', info_Error := ''Can't install service: '' @ err\<rparr>"

definition doActionInstall ::
  "'w ops \<Rightarrow> Launcher \<Rightarrow> string \<Rightarrow> action_data \<Rightarrow> 'w state \<Rightarrow> 'w state" where
  "doActionInstall ops l serviceID data st =
     (let status = \<lparr>info_ID = serviceID, info_Version = 0, info_Status = ''installed'',
                    info_Error = [], info_StateChecksum = []\<rparr>
      in case data of
        DataInstall serviceInfo \<Rightarrow>
          (let status = status\<lparr>info_Version := cloud_Version (serviceDetails serviceInfo)\<rparr>
           in case installService ops l serviceInfo st of
             (Some err, st1) \<Rightarrow> sendStatus l st1 (errorStatus status err)
           | (None, st1) \<Rightarrow>
               (case sp_GetUsersService ops (world st1) (users l) serviceID of
                  (userService, Some err) \<Rightarrow> sendStatus l st1 (errorStatus status err)
                | (userService, None) \<Rightarrow>
                    sendStatus l st1
                      (status\<lparr>info_StateChecksum :=
                                hex_EncodeToString (us_StateChecksum userService)\<rparr>)))
      | _ \<Rightarrow> sendStatus l st (errorStatus status errWrongDataType))"

definition doActionUninstall ::
  "'w ops \<Rightarrow> Launcher \<Rightarrow> string \<Rightarrow> action_data \<Rightarrow> 'w state \<Rightarrow> 'w state" where
  "doActionUninstall ops l serviceID data st =
     (let status = \<lparr>info_ID = serviceID, info_Version = 0, info_Status = ''removed'',
                    info_Error = [], info_StateChecksum = []\<rparr>
      in case uninstallService ops l serviceID st of
        ((version, None), st1) \<Rightarrow> sendStatus l st1 (status\<lparr>info_Version := version\<rparr>)
      | ((version, Some err), st1) \<Rightarrow>
          sendStatus l st1
            (status\<lparr>info_Version := version, info_Status := ''error'', info_Error := err\<rparr>))"

subsection \<open>Public functions and the actions they queue\<close>

definition InstallService :: "ServiceInfoFromCloud \<Rightarrow> serviceAction" where
  "InstallService serviceInfo =
     \<lparr>action_id = cloud_ID serviceInfo,
      action_data = DataInstall \<lparr>serviceDetails = serviceInfo\<rparr>,
      action_do = doInstall\<rparr>"


text \<open>
  \<open>stopServices\<close> puts one action in the queue for each service it lists and waits for
  all of them; the result is the list of the queued actions. An error of the listing is
  logged and the services returned with it are used.
\<close>

definition stopServices :: "'w ops \<Rightarrow> Launcher \<Rightarrow> 'w \<Rightarrow> serviceAction list" where
  "stopServices ops l w =
     (let services = (if users l = None then fst (sp_GetServices ops w)
                      else fst (sp_GetUsersServices ops w (users l)))
      in map (\<lambda>service. \<lparr>action_id = svc_ID service, action_data = DataService service,
                          action_do = stopAction\<rparr>) services)"

text \<open>What the queue does when it runs an action.\<close>

definition runAction :: "'w ops \<Rightarrow> Launcher \<Rightarrow> serviceAction \<Rightarrow> 'w state \<Rightarrow> 'w state" where
  "runAction ops l action st =
     (case action_do action of
        doInstall \<Rightarrow> doActionInstall ops l (action_id action) (action_data action) st
      | doUninstall \<Rightarrow> doActionUninstall ops l (action_id action) (action_data action) st
      | startAction \<Rightarrow>
          (case action_data action of
             DataService service \<Rightarrow> snd (onWorld (\<lambda>w. startService ops w service) st)
           | _ \<Rightarrow> st)
      | stopAction \<Rightarrow>
          (case action_data action of
             DataService service \<Rightarrow> snd (onWorld (\<lambda>w. stopService ops w service) st)
           | _ \<Rightarrow> st))"

subsection \<open>An example outside world\<close>

text \<open>
  The in-memory service provider of the launcher's tests: a table of services and a list
  of users' services. The other collaborators of \<open>testOps\<close> succeed and change nothing.
\<close>

record testWorld =
  tp_services :: "Service list"
  tp_usersServices :: "UsersService list"

definition zeroService :: Service where
  "zeroService =
     \<lparr>svc_ID = [], svc_Version = 0, svc_ServiceProvider = [], svc_Path = [],
      svc_UnitName = [], svc_UserName = [], svc_StorageLimit = 0, svc_StateLimit = 0\<rparr>"

definition zeroUsersService :: UsersService where
  "zeroUsersService =
     \<lparr>us_Users = [], us_ServiceID = [], us_StorageFolder = [], us_StateChecksum = []\<rparr>"

definition testService :: "string \<Rightarrow> nat \<Rightarrow> Service" where
  "testService serviceID version =
     zeroService\<lparr>svc_ID := serviceID, svc_Version := version,
       svc_Path := ''/var/aos/services/'' @ serviceID,
       svc_UnitName := ''aos_'' @ serviceID @ ''.service'', svc_UserName := serviceID\<rparr>"

definition usersOf :: "string list option \<Rightarrow> string list" where
  "usersOf us = (case us of None \<Rightarrow> [] | Some l \<Rightarrow> l)"

definition testOps :: "testWorld ops" where
  "testOps =
     \<lparr>dm_AreResourcesValid = (\<lambda>w. None),
      sp_GetService = (\<lambda>w serviceID.
         case find (\<lambda>s. svc_ID s = serviceID) (tp_services w) of
           Some s \<Rightarrow> (s, None)
         | None \<Rightarrow> (zeroService, Some (''service '' @ serviceID @ '' does not exist''))),
      sp_GetServices = (\<lambda>w. (tp_services w, None)),
      sp_GetUsersServices = (\<lambda>w us.
         (filter (\<lambda>s. \<exists>u \<in> set (tp_usersServices w).
                          us_Users u = usersOf us \<and> us_ServiceID u = svc_ID s)
                 (tp_services w), None)),
      sp_GetUsersService = (\<lambda>w us serviceID.
         case find (\<lambda>u. us_Users u = usersOf us \<and> us_ServiceID u = serviceID)
                (tp_usersServices w) of
           Some u \<Rightarrow> (u, None)
         | None \<Rightarrow> (zeroUsersService,
                      Some (''service '' @ serviceID @ '' does not exist in users''))),
      sp_AddService = (\<lambda>w service.
         if svc_ID service \<in> set (map svc_ID (tp_services w))
         then (Some (''service '' @ svc_ID service @ '' already exists''), w)
         else (None, w\<lparr>tp_services := tp_services w @ [service]\<rparr>)),
      sp_UpdateService = (\<lambda>w service.
         if svc_ID service \<in> set (map svc_ID (tp_services w))
         then (None, w\<lparr>tp_services :=
                 map (\<lambda>s. if svc_ID s = svc_ID service then service else s) (tp_services w)\<rparr>)
         else (Some (''service '' @ svc_ID service @ '' does not exist''), w)),
      sp_AddServiceToUsers = (\<lambda>w us serviceID.
         (None, w\<lparr>tp_usersServices := tp_usersServices w @
            [zeroUsersService\<lparr>us_Users := usersOf us, us_ServiceID := serviceID\<rparr>]\<rparr>)),
      sp_RemoveServiceFromUsers = (\<lambda>w us serviceID.
         (None, w\<lparr>tp_usersServices :=
            filter (\<lambda>u. \<not> (us_Users u = usersOf us \<and> us_ServiceID u = serviceID))
              (tp_usersServices w)\<rparr>)),
      net_NetworkExists = (\<lambda>w sp. None),
      net_CreateNetwork = (\<lambda>w sp. (None, w)),
      platform_SetUserFSQuota = (\<lambda>w dir limit user. (None, w)),
      platform_IsUserExist = (\<lambda>w user. True),
      platform_DeleteUser = (\<lambda>w user. (None, w)),
      ioutil_TempDir = (\<lambda>w dir pattern. ((dir @ ''/'' @ pattern @ ''0001'', None), w)),
      os_Stat = (\<lambda>w path. None),
      os_RemoveAll = (\<lambda>w path. (None, w)),
      services_Delete = (\<lambda>w unit. w),
      downloadAndUnpackImage = (\<lambda>w serviceInfo dir. (None, w)),
      validateUnpackedImage = (\<lambda>w dir. None),
      prepareService = (\<lambda>w unpackDir installDir info.
         ((testService (cloud_ID info) (cloud_Version info), None), w)),
      addServiceToSystemd = (\<lambda>w service. (None, w)),
      startService = (\<lambda>w service. (None, w)),
      stopService = (\<lambda>w service. (None, w)),
      restoreService = (\<lambda>w service. (None, w)),
      removeService = (\<lambda>w service. (None, w)),
      updateServiceState = (\<lambda>w serviceID state status. (None, w))\<rparr>"

definition testLauncher :: "string list option \<Rightarrow> bool \<Rightarrow> Launcher" where
  "testLauncher us sender =
     \<lparr>users = us, hasSender = sender, hasNetwork = False,
      workingDir = ''/var/aos'', storageDir = ''/var/aos/storage''\<rparr>"

definition testState :: "Service list \<Rightarrow> testWorld state" where
  "testState installedServices =
     \<lparr>world = \<lparr>tp_services = installedServices, tp_usersServices = []\<rparr>, sent = []\<rparr>"

section \<open>Action queue\<close>

text \<open>
  Modelled from the spec: the action handler (\<open>newActionHandler\<close>, \<open>PutInQueue\<close>) is
  not among the sources; only its callers in the launcher are. The model follows the
  algorithm of the specification: a map from a key to its deque of pending functions and
  its busy flag, and a semaphore of capacity \<open>W\<close>. On submit the function is appended to
  the deque, and a key that is not busy is marked busy and dispatched to the pool. On
  completion the next function of the key is popped and dispatched, and a key whose deque
  is empty has its busy flag cleared and its entry deleted.

  A dispatched function waits in the pool until the semaphore has a free slot, and then
  executes. \<open>submitted\<close> and \<open>started\<close> record the order of the submissions and of
  the starts.
\<close>

record 'a keyEntry =
  pendingDeque :: "'a list"
  busy :: bool

record ('k, 'a) actionQueue =
  entries :: "'k \<rightharpoonup> 'a keyEntry"
  waiting :: "('k \<times> 'a) list"
  executing :: "('k \<times> 'a) list"
  workerLimit :: nat
  submitted :: "('k \<times> 'a) list"
  started :: "('k \<times> 'a) list"

datatype ('k, 'a) queueEvent = Submit 'k 'a | Begin 'k | Complete 'k

definition newQueue :: "nat \<Rightarrow> ('k, 'a) actionQueue" where
  "newQueue W =
     \<lparr>entries = Map.empty, waiting = [], executing = [], workerLimit = W,
      submitted = [], started = []\<rparr>"

definition entryOf :: "('k, 'a) actionQueue \<Rightarrow> 'k \<Rightarrow> 'a keyEntry" where
  "entryOf q key =
     (case entries q key of None \<Rightarrow> \<lparr>pendingDeque = [], busy = False\<rparr> | Some e \<Rightarrow> e)"

text \<open>
  Modelled from the spec: the dispatch of a key, which the absent action handler performs
  on submit and on completion. It pops the front of the key's deque into the pool; with
  an empty deque the busy flag is cleared and the entry deleted.
\<close>

definition dispatchNext :: "('k, 'a) actionQueue \<Rightarrow> 'k \<Rightarrow> ('k, 'a) actionQueue" where
  "dispatchNext q key =
     (case pendingDeque (entryOf q key) of
        [] \<Rightarrow> q\<lparr>entries := (entries q)(key := None)\<rparr>
      | fn # rest \<Rightarrow>
          q\<lparr>entries := (entries q)(key \<mapsto> \<lparr>pendingDeque = rest, busy = True\<rparr>),
            waiting := waiting q @ [(key, fn)]\<rparr>)"

text \<open>
  Modelled from the spec: \<open>Submit(key, fn)\<close> of the absent action handler
  (\<open>PutInQueue\<close> in the launcher). The function is appended to the deque of its key,
  and a key that is not busy is marked busy and dispatched.
\<close>

definition submit :: "('k, 'a) actionQueue \<Rightarrow> 'k \<Rightarrow> 'a \<Rightarrow> ('k, 'a) actionQueue" where
  "submit q key fn =
     (let e = entryOf q key;
          e1 = e\<lparr>pendingDeque := pendingDeque e @ [fn]\<rparr>;
          q1 = q\<lparr>entries := (entries q)(key \<mapsto> e1), submitted := submitted q @ [(key, fn)]\<rparr>
      in if busy e1 then q1 else dispatchNext q1 key)"

text \<open>
  Modelled from the spec: the steps of the absent action handler, namely a submission,
  the start of a dispatched function and the completion of an executing one. The result
  is \<open>None\<close> when the event cannot happen in the state: a function
  begins only when it waits in the pool and the semaphore has a free slot, and only an
  executing function completes.
\<close>

definition queueStep ::
  "('k, 'a) actionQueue \<Rightarrow> ('k, 'a) queueEvent \<Rightarrow> ('k, 'a) actionQueue option" where
  "queueStep q ev =
     (case ev of
        Submit key fn \<Rightarrow> Some (submit q key fn)
      | Begin key \<Rightarrow>
          (case find (\<lambda>(k, fn). k = key) (waiting q) of
             None \<Rightarrow> None
           | Some task \<Rightarrow>
               if length (executing q) < workerLimit q
               then Some (q\<lparr>waiting := remove1 task (waiting q),
                            executing := executing q @ [task],
                            started := started q @ [task]\<rparr>)
               else None)
      | Complete key \<Rightarrow>
          (case find (\<lambda>(k, fn). k = key) (executing q) of
             None \<Rightarrow> None
           | Some task \<Rightarrow> Some (dispatchNext (q\<lparr>executing := remove1 task (executing q)\<rparr>) key)))"

fun queueRun ::
  "('k, 'a) actionQueue \<Rightarrow> ('k, 'a) queueEvent list \<Rightarrow> ('k, 'a) actionQueue option" where
  "queueRun q [] = Some q"
| "queueRun q (ev # evs) = (case queueStep q ev of None \<Rightarrow> None | Some q' \<Rightarrow> queueRun q' evs)"

definition ofKey :: "'k \<Rightarrow> ('k \<times> 'a) list \<Rightarrow> 'a list" where
  "ofKey key tasks = map snd (filter (\<lambda>(k, fn). k = key) tasks)"

text \<open>
  The invariant of the queue. For each key: at most one function of the key is in the
  pool or executing, exactly when the key has an entry; an entry is busy; and the
  functions submitted for the key are those started, then the one in the pool, then the
  deque, in this order.
\<close>

definition keyInv :: "('k, 'a) actionQueue \<Rightarrow> 'k \<Rightarrow> bool" where
  "keyInv q key =
     (length (ofKey key (waiting q)) + length (ofKey key (executing q))
         = (if entries q key = None then 0 else 1)
      \<and> (entries q key = None \<or> busy (entryOf q key))
      \<and> ofKey key (submitted q)
           = ofKey key (started q) @ ofKey key (waiting q) @ pendingDeque (entryOf q key))"

definition queueInv :: "('k, 'a) actionQueue \<Rightarrow> bool" where
  "queueInv q = (length (executing q) \<le> workerLimit q \<and> (\<forall>key. keyInv q key))"

text \<open>A run of the queue with two keys and two workers.\<close>

definition exampleEvents :: "(string, nat) queueEvent list" where
  "exampleEvents =
     [Submit ''service0'' 1, Submit ''service0'' 2, Submit ''service1'' 3,
      Begin ''service0'', Begin ''service1'', Complete ''service0'', Begin ''service0'']"

section \<open>Auxiliary definitions for the properties\<close>

text \<open>The manager that \<open>New\<close> builds on \<open>hostNoFile\<close>.\<close>

definition managerNoFile :: ResourceManager where
  "managerNoFile =
     \<lparr>deviceWithServices = Map.empty, hostDevices = [''/dev/'', ''/dev/null''],
      hostGroups = [''root'', ''video'', []], resourceConfigFile = ''resources.cfg'',
      availableResources = \<lparr>Devices = []\<rparr>, areResourcesValid = Some errNotProvided\<rparr>"

text \<open>
  The statuses sent up to a state are those sent before, followed at most by the "removed"
  status of a replaced service.
\<close>

definition sentWithRemoved ::
  "Launcher \<Rightarrow> Service \<Rightarrow> amqp_ServiceInfo list \<Rightarrow> 'w state \<Rightarrow> bool" where
  "sentWithRemoved l oldService before st \<longleftrightarrow>
     sent st = before \<or> (hasSender l \<and> sent st = before @ [removedStatus oldService])"

text \<open>The status with which \<open>doActionInstall\<close> reports the error of a request.\<close>

definition installErrorStatus :: "ServiceInfoFromCloud \<Rightarrow> error \<Rightarrow> amqp_ServiceInfo" where
  "installErrorStatus info err =
     \<lparr>info_ID = cloud_ID info, info_Version = cloud_Version info, info_Status = ''error'',
      info_Error = ''Can't install service: '' @ err, info_StateChecksum = []\<rparr>"

text \<open>A state with further statuses sent before those it has.\<close>

definition withSent :: "amqp_ServiceInfo list \<Rightarrow> 'w state \<Rightarrow> 'w state" where
  "withSent before st = st\<lparr>sent := before @ sent st\<rparr>"

definition stopActionOf :: "Service \<Rightarrow> serviceAction" where
  "stopActionOf service =
     \<lparr>action_id = svc_ID service, action_data = DataService service, action_do = stopAction\<rparr>"

section \<open>Properties of the resource manager\<close>

lemma contains_iff: "contains arr str \<longleftrightarrow> (\<exists>a\<in>set arr. sublist str a)"
  by (induction arr) (auto simp: strings_Contains_def)

lemma removeFromSlice_remove1: "removeFromSlice arr str = remove1 str arr"
  by (induction arr) auto

lemma firstDeviceByName_find:
  "firstDeviceByName ds name =
     (case find (\<lambda>r. sublist (Name r) name) ds of None \<Rightarrow> Inl errNotPresented | Some r \<Rightarrow> Inr r)"
  by (induction ds) (auto simp: strings_Contains_def)

lemma availableResources_RequestDevice [simp]:
  "availableResources (snd (RequestDevice rm d s)) = availableResources rm"
  by (simp add: RequestDevice_def Let_def split: sum.splits)

lemma availableResources_ReleaseDevice [simp]:
  "availableResources (snd (ReleaseDevice rm d s)) = availableResources rm"
  by (simp add: ReleaseDevice_def Let_def split: sum.splits)

lemma availableResources_applyOp [simp]:
  "availableResources (applyOp rm x) = availableResources rm"
  by (cases x) simp_all

lemma availableResources_runOps [simp]:
  "availableResources (runOps rm ops) = availableResources rm"
  unfolding runOps_def by (induction ops arbitrary: rm) simp_all

lemma holders_RequestDevice:
  "holders (snd (RequestDevice rm d s)) d' =
     (if d' = d \<and> fst (RequestDevice rm d s) = None \<and> \<not> contains (holders rm d) s
      then holders rm d @ [s] else holders rm d')"
  by (auto simp: RequestDevice_def holders_def mapIndex_def Let_def errUnavailable_def
      split: sum.splits)

lemma holders_ReleaseDevice:
  "holders (snd (ReleaseDevice rm d s)) d' =
     (if d' = d \<and> fst (ReleaseDevice rm d s) = None
      then remove1 s (holders rm d) else holders rm d')"
  by (auto simp: ReleaseDevice_def holders_def mapIndex_def Let_def removeFromSlice_remove1
      split: sum.splits)

lemma RequestDevice_success_room:
  "fst (RequestDevice rm d s) = None \<Longrightarrow>
   find (\<lambda>r. sublist (Name r) d) (Devices (availableResources rm)) = Some r \<Longrightarrow>
   0 < SharedCount r \<Longrightarrow> int (length (holders rm d)) < SharedCount r"
  by (auto simp: RequestDevice_def getAvailableDeviceByName_def firstDeviceByName_find
      holders_def Let_def split: if_splits)

lemma withinCapacity_applyOp: "withinCapacity rm \<Longrightarrow> withinCapacity (applyOp rm x)"
proof (cases x)
  case (Request d s)
  assume inv: "withinCapacity rm"
  show ?thesis
    unfolding withinCapacity_def
  proof (intro allI impI)
    fix d' r
    assume h: "find (\<lambda>r. sublist (Name r) d') (Devices (availableResources (applyOp rm x))) = Some r
               \<and> 0 < SharedCount r"
    then have f: "find (\<lambda>r. sublist (Name r) d') (Devices (availableResources rm)) = Some r"
      and pos: "0 < SharedCount r" by simp_all
    from inv f pos have old: "int (length (holders rm d')) \<le> SharedCount r"
      unfolding withinCapacity_def by blast
    show "int (length (holders (applyOp rm x) d')) \<le> SharedCount r"
    proof (cases "d' = d \<and> fst (RequestDevice rm d s) = None \<and> \<not> contains (holders rm d) s")
      case True
      with f pos have "int (length (holders rm d)) < SharedCount r"
        using RequestDevice_success_room by blast
      with True Request show ?thesis by (simp add: holders_RequestDevice)
    next
      case False
      with old Request show ?thesis by (auto simp: holders_RequestDevice)
    qed
  qed
next
  case (Release d s)
  assume inv: "withinCapacity rm"
  show ?thesis
    unfolding withinCapacity_def
  proof (intro allI impI)
    fix d' r
    assume h: "find (\<lambda>r. sublist (Name r) d') (Devices (availableResources (applyOp rm x))) = Some r
               \<and> 0 < SharedCount r"
    then have f: "find (\<lambda>r. sublist (Name r) d') (Devices (availableResources rm)) = Some r"
      and pos: "0 < SharedCount r" by simp_all
    from inv f pos have old: "int (length (holders rm d')) \<le> SharedCount r"
      unfolding withinCapacity_def by blast
    have "length (remove1 s (holders rm d)) \<le> length (holders rm d)"
      by (simp add: length_remove1)
    with old Release show "int (length (holders (applyOp rm x) d')) \<le> SharedCount r"
      by (auto simp: holders_ReleaseDevice)
  qed
qed

lemma withinCapacity_runOps: "withinCapacity rm \<Longrightarrow> withinCapacity (runOps rm ops)"
  unfolding runOps_def by (induction ops arbitrary: rm) (simp_all add: withinCapacity_applyOp)

lemma withinCapacity_empty: "deviceWithServices rm = Map.empty \<Longrightarrow> withinCapacity rm"
  by (simp add: withinCapacity_def holders_def mapIndex_def)

text \<open>
  The holders of a name never repeat: a request adds an identifier only when no holder
  contains it.
\<close>

lemma distinct_applyOp:
  "(\<forall>d. distinct (holders rm d)) \<Longrightarrow> distinct (holders (applyOp rm x) d')"
proof (cases x)
  case (Request d s)
  assume "\<forall>d. distinct (holders rm d)"
  then show ?thesis using Request
    by (auto simp: holders_RequestDevice contains_iff)
next
  case (Release d s)
  assume "\<forall>d. distinct (holders rm d)"
  then show ?thesis using Release
    by (auto simp: holders_ReleaseDevice)
qed

lemma distinct_runOps:
  "(\<forall>d. distinct (holders rm d)) \<Longrightarrow> distinct (holders (runOps rm ops) d')"
  unfolding runOps_def
  by (induction ops arbitrary: rm d') (simp_all add: distinct_applyOp)

lemma distinct_holders_reachable:
  "deviceWithServices rm = Map.empty \<Longrightarrow> distinct (holders (runOps rm ops) d)"
  by (rule distinct_runOps) (simp add: holders_def mapIndex_def)

lemmas rm_eval = RequestDevice_def ReleaseDevice_def exampleManager_def cam_def camera_def
  holders_def mapIndex_def isAvailableResourcesChecked_def getAvailableDeviceByName_def
  strings_Contains_def sublist_code runOps_def




text \<open>
  C2 (as amended). Start from a manager without grants, as \<open>New\<close> returns it, and run
  any sequence of requests and releases. For every name \<open>d\<close>: if \<open>r\<close> is the declared
  device that \<open>d\<close> resolves to (the first one whose name occurs inside \<open>d\<close>) and
  \<open>SharedCount r\<close> is positive, the holders recorded for \<open>d\<close> number at most
  \<open>SharedCount r\<close>.
\<close>

theorem device_capacity:
  "deviceWithServices rm = Map.empty \<Longrightarrow>
   find (\<lambda>r. sublist (Name r) d) (Devices (availableResources rm)) = Some r \<Longrightarrow>
   0 < SharedCount r \<Longrightarrow>
   int (length (holders (runOps rm ops) d)) \<le> SharedCount r"
  using withinCapacity_runOps [OF withinCapacity_empty, of rm ops]
  unfolding withinCapacity_def by simp

theorem device_capacity_witness:
  "int (length (holders (runOps (exampleManager [camera 1])
      [Request ''camera'' ''service1'', Request ''camera'' ''service2'',
       Release ''camera'' ''service1'', Request ''camera'' ''service3'']) ''camera'')) \<le> 1"
  using device_capacity [of "exampleManager [camera 1]" "''camera''" "camera 1"
      "[Request ''camera'' ''service1'', Request ''camera'' ''service2'',
        Release ''camera'' ''service1'', Request ''camera'' ''service3'']"]
  by (simp add: exampleManager_def camera_def sublist_code)

text \<open>
  C2 as stated fails: the declared device "camera" has \<open>SharedCount\<close> 1, but its name
  resolves to the device "cam" declared before it, which is unlimited, and two services
  hold "camera" at once.
\<close>

theorem capacity_exceeded_by_earlier_declaration:
  "camera 1 \<in> set (Devices (availableResources (exampleManager [cam 0, camera 1])))
   \<and> deviceWithServices (exampleManager [cam 0, camera 1]) = Map.empty
   \<and> holders (runOps (exampleManager [cam 0, camera 1])
        [Request ''camera'' ''service1'', Request ''camera'' ''service2'']) ''camera''
      = [''service1'', ''service2'']"
  by (simp add: rm_eval)




lemma runOps_not_provided:
  "Devices (availableResources rm) = [] \<Longrightarrow> runOps rm ops = rm"
  unfolding runOps_def
proof (induction ops)
  case Nil
  then show ?case by simp
next
  case (Cons x xs)
  have "applyOp rm x = rm"
    using Cons.prems
    by (cases x) (simp_all add: RequestDevice_def ReleaseDevice_def isAvailableResourcesChecked_def)
  with Cons show ?case by simp
qed

lemma areResourcesValid_applyOp [simp]:
  "areResourcesValid (applyOp rm x) = areResourcesValid rm"
  by (cases x) (simp_all add: RequestDevice_def ReleaseDevice_def Let_def split: sum.splits)

lemma areResourcesValid_runOps [simp]:
  "areResourcesValid (runOps rm ops) = areResourcesValid rm"
  unfolding runOps_def by (induction ops arbitrary: rm) simp_all

lemma validateDeviceResources_cong:
  "hostDevices rm = hostDevices rm' \<Longrightarrow> hostGroups rm = hostGroups rm' \<Longrightarrow>
   availableResources rm = availableResources rm' \<Longrightarrow>
   validateDeviceResources rm = validateDeviceResources rm'"
  by (simp add: validateDeviceResources_def isAvailableResourcesChecked_def deviceErrors_def
      deviceReasons_def)

lemmas host_eval = New_def discoverHostDevices_def discoverHostGroups_def groupOfLine_def
  parseResourceConfiguration_def validateDeviceResources_def isAvailableResourcesChecked_def
  deviceErrors_def deviceReasons_def Let_def

lemma New_hostNoFile: "New hostNoFile ''resources.cfg'' = Inr managerNoFile"
  by (simp add: host_eval hostNoFile_def managerNoFile_def)

text \<open>
  C10 (as amended). \<open>New\<close> fails only when the host devices or the host groups cannot
  be read, never because of the declaration file. The manager it returns has no grants,
  and \<open>AreResourcesValid\<close> returns the result of the validation made at construction,
  whatever is requested or released afterwards. When the declaration holds no device
  after the attempt to load it, which is always so when the file cannot be read and is so
  for an unparseable file only when the decoder left no device in it, that result is
  "resource configuration is not provided", and every \<open>RequestDevice\<close> and
  \<open>ReleaseDevice\<close> fails with that error and leaves the manager, grants included, as
  it was.
\<close>

theorem New_without_declaration:
  "(isl (New h file) \<longleftrightarrow> isl (discoverHostDevices h) \<or> isl (discoverHostGroups h))
   \<and> (New h file = Inr rm \<longrightarrow>
        deviceWithServices rm = Map.empty
        \<and> AreResourcesValid rm = validateDeviceResources rm
        \<and> AreResourcesValid (runOps rm ops) = AreResourcesValid rm)
   \<and> (New h file = Inr rm \<and> Devices (fst (parseResourceConfiguration h file)) = [] \<longrightarrow>
        AreResourcesValid rm = Some errNotProvided
        \<and> RequestDevice rm d s = (Some errNotProvided, rm)
        \<and> ReleaseDevice rm d s = (Some errNotProvided, rm)
        \<and> runOps rm ops = rm)
   \<and> (readFile h file = Inl e \<longrightarrow> Devices (fst (parseResourceConfiguration h file)) = [])"
proof (intro conjI impI)
  show "isl (New h file) \<longleftrightarrow> isl (discoverHostDevices h) \<or> isl (discoverHostGroups h)"
    by (simp add: New_def Let_def split: sum.splits)
next
  assume n: "New h file = Inr rm"
  then show "deviceWithServices rm = Map.empty"
    by (auto simp: New_def Let_def split: sum.splits)
  from n show "AreResourcesValid rm = validateDeviceResources rm"
    by (auto simp: New_def Let_def AreResourcesValid_def split: sum.splits
        intro!: validateDeviceResources_cong)
  show "AreResourcesValid (runOps rm ops) = AreResourcesValid rm"
    by (simp add: AreResourcesValid_def)
next
  assume a: "New h file = Inr rm \<and> Devices (fst (parseResourceConfiguration h file)) = []"
  then have av: "Devices (availableResources rm) = []"
    by (auto simp: New_def Let_def split: sum.splits)
  from a show "AreResourcesValid rm = Some errNotProvided"
    by (auto simp: New_def Let_def AreResourcesValid_def validateDeviceResources_def
        isAvailableResourcesChecked_def split: sum.splits)
  from av show "RequestDevice rm d s = (Some errNotProvided, rm)"
    by (simp add: RequestDevice_def isAvailableResourcesChecked_def)
  from av show "ReleaseDevice rm d s = (Some errNotProvided, rm)"
    by (simp add: ReleaseDevice_def isAvailableResourcesChecked_def)
  from av show "runOps rm ops = rm" by (rule runOps_not_provided)
next
  assume "readFile h file = Inl e"
  then show "Devices (fst (parseResourceConfiguration h file)) = []"
    by (simp add: parseResourceConfiguration_def)
qed

theorem New_without_declaration_witness:
  "New hostNoFile ''resources.cfg'' = Inr managerNoFile
   \<and> snd (parseResourceConfiguration hostNoFile ''resources.cfg'') \<noteq> None
   \<and> AreResourcesValid managerNoFile = Some errNotProvided
   \<and> RequestDevice managerNoFile ''camera'' ''service1'' = (Some errNotProvided, managerNoFile)
   \<and> ReleaseDevice managerNoFile ''camera'' ''service1'' = (Some errNotProvided, managerNoFile)
   \<and> runOps managerNoFile [Request ''camera'' ''service1'', Release ''camera'' ''service1'']
       = managerNoFile"
  using New_without_declaration [of hostNoFile "''resources.cfg''" managerNoFile
      "[Request ''camera'' ''service1'', Release ''camera'' ''service1'']"
      "''camera''" "''service1''" "''open resources.cfg: no such file or directory''"]
    New_hostNoFile
  by (simp add: parseResourceConfiguration_def hostNoFile_def managerNoFile_def
      AreResourcesValid_def)

text \<open>
  C10 as stated fails: the declaration file of \<open>hostTypeError\<close> cannot be parsed (the
  decoder returns an error, which \<open>New\<close> logs), yet the device decoded before the
  error stays in the manager, the validation finds nothing wrong, and a request for the
  camera is granted.
\<close>

theorem New_type_error_grants:
  "snd (parseResourceConfiguration hostTypeError ''resources.cfg'') \<noteq> None
   \<and> New hostTypeError ''resources.cfg'' = Inr managerTypeError
   \<and> AreResourcesValid managerTypeError = None
   \<and> fst (RequestDevice managerTypeError ''camera'' ''service1'') = None
   \<and> holders (snd (RequestDevice managerTypeError ''camera'' ''service1'')) ''camera''
       = [''service1'']"
  by (simp add: host_eval hostTypeError_def managerTypeError_def rm_eval AreResourcesValid_def)

section \<open>Properties of the database\<close>

lemmas db_eval = GetService_def selectServices_def maxAosVersion_def exampleDatabase_def
  serviceRow_def

lemma fold_max_mem: "fold max vs (v::nat) \<in> set (v # vs)"
proof (induction vs arbitrary: v)
  case Nil
  then show ?case by simp
next
  case (Cons a vs)
  have ih: "fold max vs (max a v) \<in> set (max a v # vs)" by (rule Cons.IH)
  have "max a v = a \<or> max a v = v" by (simp add: max_def)
  with ih show ?case by auto
qed

lemma filter_Cons_member: "filter P xs = z # zs \<Longrightarrow> z \<in> set xs \<and> P z"
proof -
  assume "filter P xs = z # zs"
  then have "z \<in> set (filter P xs)" by simp
  then show ?thesis by simp
qed

lemma maxAosVersion_None:
  "maxAosVersion rows serviceID = None \<longleftrightarrow> serviceID \<notin> ServiceID ` set rows"
proof (cases "filter (\<lambda>row. ServiceID row = serviceID) rows")
  case Nil
  then show ?thesis
    by (auto simp: maxAosVersion_def filter_empty_conv)
next
  case (Cons z zs)
  then have "z \<in> set rows \<and> ServiceID z = serviceID" by (rule filter_Cons_member)
  with Cons show ?thesis
    by (auto simp: maxAosVersion_def)
qed

text \<open>
  The part of the lookup that holds: without a driver error, \<open>GetService\<close> reports
  \<open>ErrNotExist\<close> exactly when the table has no row of the service.
\<close>

lemma GetService_not_exist:
  "prepareError db = None \<Longrightarrow>
   GetService db serviceID = Inl ErrNotExist \<longleftrightarrow> serviceID \<notin> ServiceID ` set (services db)"
proof -
  assume p: "prepareError db = None"
  show ?thesis
  proof (cases "maxAosVersion (services db) serviceID")
    case None
    with p show ?thesis
      by (simp add: GetService_def selectServices_def maxAosVersion_None [symmetric])
  next
    case (Some v)
    then obtain x xs where
      f: "map AosVersion (filter (\<lambda>row. ServiceID row = serviceID) (services db)) = x # xs"
      and v: "v = fold max xs x"
      by (auto simp: maxAosVersion_def split: list.splits)
    have "v \<in> set (x # xs)" unfolding v by (rule fold_max_mem)
    with f have "v \<in> AosVersion ` set (filter (\<lambda>row. ServiceID row = serviceID) (services db))"
      by (metis list.set_map)
    then obtain row where "row \<in> set (services db)" "AosVersion row = v" by auto
    then have ne: "filter (\<lambda>row. AosVersion row = v) (services db) \<noteq> []"
      by (auto simp: filter_empty_conv)
    from Some have "serviceID \<in> ServiceID ` set (services db)"
      using maxAosVersion_None [of "services db" serviceID] by simp
    with p Some ne show ?thesis
      by (auto simp: GetService_def selectServices_def split: list.splits option.splits)
  qed
qed

text \<open>
  C8. The lookup does not return the record of the requested service: the outer query
  selects by version alone. With "service2" and "service1" both stored at version 2, the
  lookup of the service whose row comes second returns the row of the other one,
  whichever of the two is stored first.
\<close>

theorem GetService_returns_other_service:
  "GetService (exampleDatabase [serviceRow ''service2'' 2 ''to/service2'',
                                serviceRow ''service1'' 2 ''to/service1'']) ''service1''
     = Inr (serviceRow ''service2'' 2 ''to/service2'')
   \<and> GetService (exampleDatabase [serviceRow ''service1'' 2 ''to/service1'',
                                  serviceRow ''service2'' 2 ''to/service2'']) ''service2''
     = Inr (serviceRow ''service1'' 2 ''to/service1'')"
  by (simp add: db_eval)

section \<open>Properties of the main loop and of the launcher\<close>

lemma onWorld_eq: "onWorld f st = (fst (f (world st)), st\<lparr>world := snd (f (world st))\<rparr>)"
  by (simp add: onWorld_def split: prod.splits)

lemma sent_sendStatus:
  "sent (sendStatus l st status) = sent st @ (if hasSender l then [status] else [])"
  by (simp add: sendStatus_def)

lemma world_sendStatus [simp]: "world (sendStatus l st status) = world st"
  by (simp add: sendStatus_def)


lemma sentWithRemoved_world [simp]:
  "sentWithRemoved l oldService before (st\<lparr>world := w\<rparr>) = sentWithRemoved l oldService before st"
  by (simp add: sentWithRemoved_def)






lemma withSent_world [simp]:
  "(withSent s0 st)\<lparr>world := w\<rparr> = withSent s0 (st\<lparr>world := w\<rparr>)"
  by (simp add: withSent_def)

lemma sendStatus_withSent [simp]:
  "sendStatus l (withSent s0 st) status = withSent s0 (sendStatus l st status)"
  by (simp add: withSent_def sendStatus_def)










text \<open>
  C6. With no users set (\<open>users\<close> is nil), \<open>installService\<close> fails with "users are
  not set" before it does anything, so the action of an install request only reports
  that error and installs nothing; and \<open>stopServices\<close> queues a stop for every service
  that the provider's \<open>GetServices\<close> lists, not for the services of the current users,
  each of which calls \<open>stopService\<close> on its service.
\<close>

theorem users_not_set:
  "users l = None \<Longrightarrow>
   installService ops l \<lparr>serviceDetails = info\<rparr> st = (Some errUsersNotSet, st)
   \<and> runAction ops l (InstallService info) st
       = sendStatus l st (installErrorStatus info errUsersNotSet)
   \<and> stopServices ops l w = map stopActionOf (fst (sp_GetServices ops w))
   \<and> runAction ops l (stopActionOf service) st
       = st\<lparr>world := snd (stopService ops (world st) service)\<rparr>"
  by (simp add: installService_def runAction_def InstallService_def doActionInstall_def
      errorStatus_def installErrorStatus_def stopServices_def stopActionOf_def onWorld_eq)

theorem users_not_set_witness:
  "installService testOps (testLauncher None True)
      \<lparr>serviceDetails = desiredInfo ''service1'' 1\<rparr>
      (testState [testService ''service0'' 5, testService ''service1'' 1])
     = (Some errUsersNotSet, testState [testService ''service0'' 5, testService ''service1'' 1])
   \<and> sent (runAction testOps (testLauncher None True) (InstallService (desiredInfo ''service1'' 1))
        (testState [testService ''service0'' 5, testService ''service1'' 1]))
     = [installErrorStatus (desiredInfo ''service1'' 1) errUsersNotSet]
   \<and> stopServices testOps (testLauncher None True)
        (world (testState [testService ''service0'' 5, testService ''service1'' 1]))
     = [stopActionOf (testService ''service0'' 5), stopActionOf (testService ''service1'' 1)]"
proof -
  have h: "users (testLauncher None True) = None"
    by (simp add: testLauncher_def)
  show ?thesis
    using users_not_set [OF h, of testOps "desiredInfo ''service1'' 1"
        "testState [testService ''service0'' 5, testService ''service1'' 1]"
        "world (testState [testService ''service0'' 5, testService ''service1'' 1])"]
    by (simp add: sent_sendStatus testLauncher_def testState_def testOps_def)
qed




text \<open>
  C9. The same set of services, desired and installed at the same versions, but listed in
  a different order: both descriptors alias the two loop variables, which end as "A" at
  version 1 (installed) and "B" at version 2 (desired), so \<open>InstallService\<close> is called
  for "B" at version 2, once per key. The launcher then starts the installed service
  again and sends the status "installed" for it.
\<close>

theorem same_set_reordered_installs:
  "processAmqpMessage (ServicesFromCloud [desiredInfo ''A'' 1, desiredInfo ''B'' 2])
       ([installedInfo ''B'' 2, installedInfo ''A'' 1], None)
     = (None, [CallInstallService (desiredInfo ''B'' 2), CallInstallService (desiredInfo ''B'' 2)])
   \<and> sent (runAction testOps (testLauncher (Some [''User1'']) True)
              (InstallService (desiredInfo ''B'' 2))
              (testState [testService ''B'' 2, testService ''A'' 1]))
     = [installedInfo ''B'' 2]"
  by code_simp

section \<open>Properties of the action queue\<close>

lemma ofKey_append [simp]: "ofKey key (xs @ ys) = ofKey key xs @ ofKey key ys"
  by (simp add: ofKey_def)

lemma ofKey_Nil [simp]: "ofKey key [] = []"
  by (simp add: ofKey_def)

lemma ofKey_single [simp]: "ofKey key [(k, fn)] = (if k = key then [fn] else [])"
  by (simp add: ofKey_def)

lemma find_key_Some:
  "find (\<lambda>(k, fn). k = key) xs = Some task \<Longrightarrow> fst task = key \<and> task \<in> set xs"
  by (induction xs) (auto split: if_splits)

lemma ofKey_remove1_other:
  "fst task \<noteq> key \<Longrightarrow> ofKey key (remove1 task xs) = ofKey key xs"
  by (induction xs) (auto simp: ofKey_def)

lemma ofKey_remove1_only:
  "task \<in> set xs \<Longrightarrow> length (ofKey (fst task) xs) \<le> 1 \<Longrightarrow>
   ofKey (fst task) xs = [snd task] \<and> ofKey (fst task) (remove1 task xs) = []"
proof (induction xs)
  case Nil
  then show ?case by simp
next
  case (Cons x xs)
  show ?case
  proof (cases "x = task")
    case True
    with Cons.prems show ?thesis by (auto simp: ofKey_def split: prod.splits)
  next
    case False
    with Cons show ?thesis by (auto simp: ofKey_def split: prod.splits if_splits)
  qed
qed

lemma distinct_keys:
  "(\<forall>key. length (ofKey key xs) \<le> 1) \<Longrightarrow> distinct (map fst xs)"
proof (induction xs)
  case Nil
  then show ?case by simp
next
  case (Cons x xs)
  have all: "\<forall>key. length (ofKey key xs) \<le> 1"
  proof
    fix key
    from Cons.prems have "length (ofKey key (x # xs)) \<le> 1" by blast
    then show "length (ofKey key xs) \<le> 1"
      by (auto simp: ofKey_def split: prod.splits if_splits)
  qed
  have "fst x \<notin> fst ` set xs"
  proof
    assume "fst x \<in> fst ` set xs"
    then obtain y where y: "y \<in> set xs" "fst y = fst x" by auto
    then have "filter (\<lambda>(k, fn). k = fst x) xs \<noteq> []"
      by (auto simp: filter_empty_conv case_prod_beta)
    then have "length (ofKey (fst x) xs) \<ge> 1"
      by (cases "filter (\<lambda>(k, fn). k = fst x) xs") (auto simp: ofKey_def)
    moreover from Cons.prems have "length (ofKey (fst x) (x # xs)) \<le> 1" by blast
    ultimately show False by (auto simp: ofKey_def split: prod.splits)
  qed
  with Cons.IH [OF all] show ?case by simp
qed

lemma keyInv_executing: "keyInv q key \<Longrightarrow> length (ofKey key (executing q)) \<le> 1"
  by (auto simp: keyInv_def split: if_splits)

lemma queueInv_newQueue: "queueInv (newQueue W)"
  by (simp add: queueInv_def keyInv_def newQueue_def entryOf_def)

lemma keyInv_submit:
  "keyInv q key \<Longrightarrow> keyInv q key' \<Longrightarrow> keyInv (submit q key fn) key'"
  unfolding keyInv_def submit_def dispatchNext_def entryOf_def Let_def
  by (cases "key' = key") (auto split: option.splits list.splits)

lemma executing_submit [simp]: "executing (submit q key fn) = executing q"
  by (simp add: submit_def dispatchNext_def Let_def split: list.splits)

lemma workerLimit_submit [simp]: "workerLimit (submit q key fn) = workerLimit q"
  by (simp add: submit_def dispatchNext_def Let_def split: list.splits)

lemma queueInv_submit: "queueInv q \<Longrightarrow> queueInv (submit q key fn)"
  by (simp add: queueInv_def keyInv_submit)

lemma keyInv_begin:
  assumes inv: "keyInv q key" "keyInv q key'"
    and f: "find (\<lambda>(k, fn). k = key) (waiting q) = Some task"
  shows "keyInv (q\<lparr>waiting := remove1 task (waiting q), executing := executing q @ [task],
                    started := started q @ [task]\<rparr>) key'"
proof -
  from f have t: "fst task = key" "task \<in> set (waiting q)"
    using find_key_Some by fastforce+
  show ?thesis
  proof (cases "key' = key")
    case False
    with t inv(2) show ?thesis
      by (cases task) (auto simp: keyInv_def entryOf_def ofKey_remove1_other)
  next
    case True
    from inv(1) have "length (ofKey key (waiting q)) \<le> 1"
      by (auto simp: keyInv_def split: if_splits)
    with t have w: "ofKey key (waiting q) = [snd task]" "ofKey key (remove1 task (waiting q)) = []"
      using ofKey_remove1_only [of task "waiting q"] by auto
    with inv(1) True t show ?thesis
      by (cases task) (auto simp: keyInv_def entryOf_def split: if_splits)
  qed
qed

lemma keyInv_complete:
  assumes inv: "keyInv q key" "keyInv q key'"
    and f: "find (\<lambda>(k, fn). k = key) (executing q) = Some task"
  shows "keyInv (dispatchNext (q\<lparr>executing := remove1 task (executing q)\<rparr>) key) key'"
proof -
  from f have t: "fst task = key" "task \<in> set (executing q)"
    using find_key_Some by fastforce+
  show ?thesis
  proof (cases "key' = key")
    case False
    with t inv(2) show ?thesis
      by (auto simp: keyInv_def dispatchNext_def entryOf_def ofKey_remove1_other
          split: list.splits option.splits)
  next
    case True
    from inv(1) have "length (ofKey key (executing q)) \<le> 1"
      by (auto simp: keyInv_def split: if_splits)
    with t have e: "ofKey key (executing q) = [snd task]"
        "ofKey key (remove1 task (executing q)) = []"
      using ofKey_remove1_only [of task "executing q"] by auto
    with inv(1) True t show ?thesis
      by (auto simp: keyInv_def dispatchNext_def entryOf_def
          split: list.splits option.splits if_splits)
  qed
qed

lemma length_remove1_le: "length (remove1 x xs) \<le> length xs"
  by (simp add: length_remove1)

lemma queueInv_step: "queueInv q \<Longrightarrow> queueStep q ev = Some q' \<Longrightarrow> queueInv q'"
proof (cases ev)
  case (Submit key fn)
  assume "queueInv q" "queueStep q ev = Some q'"
  with Submit show ?thesis by (auto simp: queueStep_def queueInv_submit)
next
  case (Begin key)
  assume inv: "queueInv q" and st: "queueStep q ev = Some q'"
  from st Begin obtain task where
    f: "find (\<lambda>(k, fn). k = key) (waiting q) = Some task"
    and lim: "length (executing q) < workerLimit q"
    and q': "q' = q\<lparr>waiting := remove1 task (waiting q), executing := executing q @ [task],
                     started := started q @ [task]\<rparr>"
    by (auto simp: queueStep_def split: option.splits if_splits)
  from inv have k: "\<And>key'. keyInv q key'" by (simp add: queueInv_def)
  have "\<And>key'. keyInv q' key'"
    unfolding q' by (rule keyInv_begin [OF k k f])
  moreover have "length (executing q') \<le> workerLimit q'"
    using lim by (simp add: q')
  ultimately show ?thesis by (simp add: queueInv_def)
next
  case (Complete key)
  assume inv: "queueInv q" and st: "queueStep q ev = Some q'"
  from st Complete obtain task where
    f: "find (\<lambda>(k, fn). k = key) (executing q) = Some task"
    and q': "q' = dispatchNext (q\<lparr>executing := remove1 task (executing q)\<rparr>) key"
    by (auto simp: queueStep_def split: option.splits)
  from inv have k: "\<And>key'. keyInv q key'" and lim: "length (executing q) \<le> workerLimit q"
    by (simp_all add: queueInv_def)
  have "length (remove1 task (executing q)) \<le> workerLimit q"
    using lim length_remove1_le [of task "executing q"] by linarith
  then have "length (executing q') \<le> workerLimit q'"
    by (simp add: q' dispatchNext_def split: list.splits)
  moreover have "\<And>key'. keyInv q' key'"
    unfolding q' by (rule keyInv_complete [OF k k f])
  ultimately show ?thesis by (simp add: queueInv_def)
qed

lemma queueInv_run:
  "queueInv q \<Longrightarrow> queueRun q evs = Some q' \<Longrightarrow> queueInv q'"
proof (induction evs arbitrary: q)
  case Nil
  then show ?case by simp
next
  case (Cons ev evs)
  from Cons.prems(2) obtain q1 where s: "queueStep q ev = Some q1" and r: "queueRun q1 evs = Some q'"
    by (auto split: option.splits)
  from Cons.prems(1) s have "queueInv q1" by (rule queueInv_step)
  then show ?case using r by (rule Cons.IH)
qed

lemma workerLimit_step: "queueStep q ev = Some q' \<Longrightarrow> workerLimit q' = workerLimit q"
  by (cases ev) (auto simp: queueStep_def dispatchNext_def split: option.splits if_splits list.splits)

lemma workerLimit_run: "queueRun q evs = Some q' \<Longrightarrow> workerLimit q' = workerLimit q"
proof (induction evs arbitrary: q)
  case Nil
  then show ?case by simp
next
  case (Cons ev evs)
  then show ?case
    by (auto split: option.splits dest: workerLimit_step)
qed

text \<open>
  C4. In every state that the queue reaches from its initial state, whatever the order
  of the submissions, starts and completions: the executing functions have distinct keys
  (at most one function of a key is executing), they number at most \<open>W\<close>, and the
  functions of a key have started in the order of their submission (those started are an
  initial part of those submitted). Two functions with different keys execute at the same
  time as soon as \<open>W\<close> is at least 2.
\<close>

theorem action_queue_serialized:
  "(queueRun (newQueue W) evs = Some (q :: ('k, 'a) actionQueue) \<longrightarrow>
      distinct (map fst (executing q))
      \<and> length (executing q) \<le> W
      \<and> prefix (ofKey key (started q)) (ofKey key (submitted q)))
   \<and> (key \<noteq> key' \<and> 2 \<le> W \<longrightarrow>
      (\<exists>q' :: ('k, 'a) actionQueue.
          queueRun (newQueue W) [Submit key fn, Submit key' fn', Begin key, Begin key'] = Some q'
          \<and> executing q' = [(key, fn), (key', fn')]))"
proof (intro conjI impI)
  assume r: "queueRun (newQueue W) evs = Some q"
  then have inv: "queueInv q" using queueInv_newQueue queueInv_run by blast
  from r have w: "workerLimit q = W"
    using workerLimit_run [of "newQueue W" evs q] by (simp add: newQueue_def)
  have "\<forall>k. length (ofKey k (executing q)) \<le> 1"
  proof
    fix k
    from inv have "keyInv q k" by (simp add: queueInv_def)
    then show "length (ofKey k (executing q)) \<le> 1" by (rule keyInv_executing)
  qed
  then show "distinct (map fst (executing q))" by (rule distinct_keys)
  from inv w show "length (executing q) \<le> W" by (simp add: queueInv_def)
  from inv have "ofKey key (submitted q)
      = ofKey key (started q) @ ofKey key (waiting q) @ pendingDeque (entryOf q key)"
    by (simp add: queueInv_def keyInv_def)
  then show "prefix (ofKey key (started q)) (ofKey key (submitted q))"
    by (simp add: prefix_def)
next
  assume "key \<noteq> key' \<and> 2 \<le> W"
  then show "\<exists>q' :: ('k, 'a) actionQueue.
          queueRun (newQueue W) [Submit key fn, Submit key' fn', Begin key, Begin key'] = Some q'
          \<and> executing q' = [(key, fn), (key', fn')]"
    by (auto simp: queueStep_def submit_def dispatchNext_def entryOf_def newQueue_def Let_def)
qed

lemma exampleEvents_run:
  "case queueRun (newQueue 2) exampleEvents of
     None \<Rightarrow> False
   | Some q \<Rightarrow> executing q = [(''service1'', 3), (''service0'', 2)]
               \<and> started q = [(''service0'', 1), (''service1'', 3), (''service0'', 2)]"
  by code_simp

theorem action_queue_serialized_witness:
  "\<exists>q. queueRun (newQueue 2) exampleEvents = Some q
       \<and> executing q = [(''service1'', 3), (''service0'', 2)]
       \<and> distinct (map fst (executing q))
       \<and> length (executing q) \<le> 2
       \<and> prefix (ofKey ''service0'' (started q)) (ofKey ''service0'' (submitted q))"
proof -
  from exampleEvents_run obtain q where
    r: "queueRun (newQueue 2) exampleEvents = Some q"
    and e: "executing q = [(''service1'', 3), (''service0'', 2)]"
    by (cases "queueRun (newQueue 2) exampleEvents") auto
  from action_queue_serialized [of 2 exampleEvents q "''service0''" "''service1''" 1 3] r e
  show ?thesis by simp
qed

end
